theory Spec2Isabelle
  imports Main "HOL-Library.AList"
begin

section \<open>Values, rows and replies\<close>

text \<open>
  The service exchanges JSON: request bodies parsed by \<open>express.json()\<close>, row objects
  returned by the database driver, and response bodies written by \<open>res.json\<close>. Numbers
  are modelled as integers (fractions and the rounding of values beyond \<open>2^53\<close> to double
  precision are not modelled). A \<open>char\<close> stands for one code unit below 256.
\<close>

datatype json =
    JNull
  | JBool bool
  | JNum int
  | JStr string
  | JArr "json list"
  | JObj "(string \<times> json) list"

text \<open>A row object of \<open>public.employees\<close>: column name and value, in column order.\<close>

type_synonym row = "(string \<times> json) list"

text \<open>Reading a property: \<open>None\<close> is JavaScript's \<open>undefined\<close>.\<close>

fun field :: "json \<Rightarrow> string \<Rightarrow> json option" where
  "field (JObj kvs) k = map_of kvs k"
| "field _ k = None"

text \<open>JavaScript truthiness, as the \<open>!name\<close> tests of the handlers use it.\<close>

fun truthy :: "json option \<Rightarrow> bool" where
  "truthy None = False"
| "truthy (Some JNull) = False"
| "truthy (Some (JBool b)) = b"
| "truthy (Some (JNum n)) = (n \<noteq> 0)"
| "truthy (Some (JStr s)) = (s \<noteq> [])"
| "truthy (Some (JArr vs)) = True"
| "truthy (Some (JObj kvs)) = True"

datatype body = Json json | Text string

text \<open>
  What a middleware or a handler does with a request: it sends a response
  (\<open>res.status(n).json(..)\<close>, \<open>res.status(n).send(..)\<close>), redirects, calls \<open>next()\<close>,
  calls \<open>next(err)\<close>, or returns without doing any of these (\<open>Pending\<close>).
\<close>

datatype reply =
    Reply nat body
  | Redirect string
  | Next
  | NextErr
  | Pending

fun status :: "reply \<Rightarrow> nat option" where
  "status (Reply n b) = Some n"
| "status _ = None"

definition error_body :: "string \<Rightarrow> body" where
  "error_body msg = Json (JObj [(''error'', JStr msg)])"

section \<open>parseInt\<close>

text \<open>
  \<open>parseInt(string)\<close> without a radix, after ECMAScript: leading white space is skipped,
  one sign is read, a \<open>0x\<close> or \<open>0X\<close> prefix selects radix 16 (radix 10 otherwise), and the
  longest prefix of digits of that radix is the value; everything after it is ignored.
  \<open>None\<close> is \<open>NaN\<close>, so \<open>isNaN(parseInt(s))\<close> is \<open>parseInt s = None\<close>.
\<close>

definition is_ws :: "char \<Rightarrow> bool" where
  "is_ws c = (c \<in> set [CHR 0x09, CHR 0x0A, CHR 0x0B, CHR 0x0C, CHR 0x0D, CHR 0x20, CHR 0xA0])"

definition digit_val :: "char \<Rightarrow> nat" where
  "digit_val c =
     (let n = of_char c :: nat in
      if 48 \<le> n \<and> n \<le> 57 then n - 48
      else if 97 \<le> n \<and> n \<le> 102 then n - 87
      else if 65 \<le> n \<and> n \<le> 70 then n - 55
      else 16)"

definition is_digit :: "nat \<Rightarrow> char \<Rightarrow> bool" where
  "is_digit radix c = (digit_val c < radix)"

definition strip_sign :: "string \<Rightarrow> bool \<times> string" where
  "strip_sign s =
     (case s of
        [] \<Rightarrow> (False, [])
      | c # r \<Rightarrow> if c = CHR ''-'' then (True, r)
                 else if c = CHR ''+'' then (False, r)
                 else (False, s))"

definition strip_prefix :: "string \<Rightarrow> nat \<times> string" where
  "strip_prefix s =
     (case s of
        a # b # r \<Rightarrow> if a = CHR ''0'' \<and> (b = CHR ''x'' \<or> b = CHR ''X'') then (16, r) else (10, s)
      | _ \<Rightarrow> (10, s))"

definition digits_value :: "nat \<Rightarrow> string \<Rightarrow> nat" where
  "digits_value radix z = foldl (\<lambda>acc c. acc * radix + digit_val c) 0 z"

definition parseInt :: "string \<Rightarrow> int option" where
  "parseInt s =
     (case strip_sign (dropWhile is_ws s) of
        (neg, u) \<Rightarrow>
          (case strip_prefix u of
             (radix, v) \<Rightarrow>
               (let z = takeWhile (is_digit radix) v in
                if z = [] then None
                else Some ((if neg then - 1 else 1) * int (digits_value radix z)))))"

text \<open>Number to string, as a template literal renders an integer.\<close>

fun nat_digits :: "nat \<Rightarrow> string" where
  "nat_digits n =
     (if n < 10 then [char_of (48 + n)]
      else nat_digits (n div 10) @ [char_of (48 + n mod 10)])"

definition number_string :: "int \<Rightarrow> string" where
  "number_string i = (if i < 0 then CHR ''-'' # nat_digits (nat (- i)) else nat_digits (nat i))"

section \<open>The database engine behind \<open>pool.query\<close>\<close>

text \<open>
  The engine is an external collaborator: the code only sends it the statements below.
  Its state is the relation \<open>public.employees\<close>, the sequence that generates ids, and
  the schema of the relation, which is not part of the repository: \<open>defaults\<close> lists
  every column with the value it takes when an \<open>INSERT\<close> does not name it.
  In a \<open>WHERE\<close> clause a column is compared with a parameter by equality of values
  (the driver sends \<open>undefined\<close> as \<open>NULL\<close>). Whether the engine answers a query or
  rejects it (connection failure, timeout, constraint violation, value out of range)
  is not decided by the code: it is an input of each handler.
\<close>

record db =
  employees :: "row list"
  id_seq :: int
  defaults :: row

datatype engine = Answers | Rejects

datatype db_error = DatabaseError

datatype statement =
    Select_all
  | Select_by_id json
  | Insert_employee json json json
  | Update_employee json json json json
  | Delete_employee json
  | Set_password json json

text \<open>\<open>WHERE c = $n\<close>: a comparison with \<open>NULL\<close> selects no row.\<close>

definition has_col :: "string \<Rightarrow> json \<Rightarrow> row \<Rightarrow> bool" where
  "has_col c v r = (v \<noteq> JNull \<and> map_of r c = Some v)"

definition set_cols :: "(string \<times> json) list \<Rightarrow> row \<Rightarrow> row" where
  "set_cols kvs r = AList.updates (map fst kvs) (map snd kvs) r"

text \<open>
  The columns \<open>name\<close>, \<open>email\<close> and \<open>department\<close> are text. The driver sends a
  parameter as text (\<open>prepareValue\<close>): a string as it is, a number or a boolean by
  \<open>toString()\<close>, an object by \<open>JSON.stringify\<close>, an array as an array literal, and
  \<open>null\<close> as \<open>NULL\<close>; the column stores that text.
\<close>

definition hex_digit :: "nat \<Rightarrow> char" where
  "hex_digit n = (if n < 10 then char_of (48 + n) else char_of (87 + n))"

definition escape_char :: "char \<Rightarrow> string" where
  "escape_char c =
     (let n = of_char c :: nat in
      if n = 0x22 then [CHR 0x5C, CHR 0x22]
      else if n = 0x5C then [CHR 0x5C, CHR 0x5C]
      else if n = 0x08 then [CHR 0x5C, CHR ''b'']
      else if n = 0x0C then [CHR 0x5C, CHR ''f'']
      else if n = 0x0A then [CHR 0x5C, CHR ''n'']
      else if n = 0x0D then [CHR 0x5C, CHR ''r'']
      else if n = 0x09 then [CHR 0x5C, CHR ''t'']
      else if n < 0x20 then [CHR 0x5C, CHR ''u'', CHR ''0'', CHR ''0'', hex_digit (n div 16), hex_digit (n mod 16)]
      else [c])"

definition quote :: "string \<Rightarrow> string" where
  "quote s = [CHR 0x22] @ concat (map escape_char s) @ [CHR 0x22]"

fun join :: "string \<Rightarrow> string list \<Rightarrow> string" where
  "join sep [] = []"
| "join sep [x] = x"
| "join sep (x # y # ys) = x @ sep @ join sep (y # ys)"

fun stringify :: "json \<Rightarrow> string" where
  "stringify JNull = ''null''"
| "stringify (JBool b) = (if b then ''true'' else ''false'')"
| "stringify (JNum n) = number_string n"
| "stringify (JStr s) = quote s"
| "stringify (JArr vs) = ''['' @ join '','' (map stringify vs) @ '']''"
| "stringify (JObj kvs) =
     ''{'' @ join '','' (map (\<lambda>kv. quote (fst kv) @ '':'' @ stringify (snd kv)) kvs) @ ''}''"

definition escapeElement :: "string \<Rightarrow> string" where
  "escapeElement s =
     [CHR 0x22] @
     concat (map (\<lambda>c. if c = CHR 0x5C \<or> c = CHR 0x22 then [CHR 0x5C, c] else [c]) s) @
     [CHR 0x22]"

fun arrayElement :: "json \<Rightarrow> string" where
  "arrayElement JNull = ''NULL''"
| "arrayElement (JArr vs) = ''{'' @ join '','' (map arrayElement vs) @ ''}''"
| "arrayElement (JBool b) = escapeElement (if b then ''true'' else ''false'')"
| "arrayElement (JNum n) = escapeElement (number_string n)"
| "arrayElement (JStr s) = escapeElement s"
| "arrayElement (JObj kvs) = escapeElement (stringify (JObj kvs))"

definition prepareValue :: "json \<Rightarrow> json" where
  "prepareValue v =
     (case v of
        JNull \<Rightarrow> JNull
      | JBool b \<Rightarrow> JStr (if b then ''true'' else ''false'')
      | JNum n \<Rightarrow> JStr (number_string n)
      | JStr s \<Rightarrow> JStr s
      | JArr vs \<Rightarrow> JStr (arrayElement (JArr vs))
      | JObj kvs \<Rightarrow> JStr (stringify (JObj kvs)))"

text \<open>
  The row that \<open>INSERT INTO public.employees (name, email, department)\<close> creates: every
  column of the relation, the id drawn from the sequence, the three columns named, and
  the default of every other column.
\<close>

definition new_row :: "db \<Rightarrow> json \<Rightarrow> json \<Rightarrow> json \<Rightarrow> row" where
  "new_row d n e dep =
     set_cols [(''id'', JNum (id_seq d)), (''name'', prepareValue n), (''email'', prepareValue e),
               (''department'', prepareValue dep)]
              (defaults d)"

definition text_cols :: "json \<Rightarrow> json \<Rightarrow> json \<Rightarrow> row \<Rightarrow> row" where
  "text_cols n e dep =
     set_cols [(''name'', prepareValue n), (''email'', prepareValue e),
               (''department'', prepareValue dep)]"

definition exec :: "statement \<Rightarrow> db \<Rightarrow> row list \<times> db" where
  "exec st d =
     (case st of
        Select_all \<Rightarrow> (employees d, d)
      | Select_by_id i \<Rightarrow> (filter (has_col ''id'' i) (employees d), d)
      | Insert_employee n e dep \<Rightarrow>
          (let r = new_row d n e dep
           in ([r], d\<lparr>employees := employees d @ [r], id_seq := id_seq d + 1\<rparr>))
      | Update_employee n e dep i \<Rightarrow>
          (let upd = text_cols n e dep
           in (map upd (filter (has_col ''id'' i) (employees d)),
               d\<lparr>employees := map (\<lambda>r. if has_col ''id'' i r then upd r else r) (employees d)\<rparr>))
      | Delete_employee i \<Rightarrow>
          (filter (has_col ''id'' i) (employees d),
           d\<lparr>employees := filter (\<lambda>r. \<not> has_col ''id'' i r) (employees d)\<rparr>)
      | Set_password digest i \<Rightarrow>
          ([], d\<lparr>employees := map (\<lambda>r. if has_col ''employee_id'' i r
                                         then set_cols [(''password'', digest)] r else r)
                                  (employees d)\<rparr>))"

definition pool_query :: "engine \<Rightarrow> statement \<Rightarrow> db \<Rightarrow> (db_error + row list) \<times> db" where
  "pool_query e st d =
     (case e of
        Rejects \<Rightarrow> (Inl DatabaseError, d)
      | Answers \<Rightarrow> (case exec st d of (rows, d') \<Rightarrow> (Inr rows, d')))"

section \<open>The open variant (server.js)\<close>

text \<open>
  A request: the \<open>:id\<close> path parameter, the parsed JSON body, the parsed query string,
  and \<open>req.user\<close>.
\<close>

record request =
  params_id :: string
  body :: json
  query :: json
  user :: "row option"

definition getAllEmployees :: "engine \<Rightarrow> request \<Rightarrow> db \<Rightarrow> reply \<times> db" where
  "getAllEmployees e req d =
     (case pool_query e Select_all d of
        (Inr rows, d') \<Rightarrow> (Reply 200 (Json (JArr (map JObj rows))), d')
      | (Inl err, d') \<Rightarrow> (Reply 500 (error_body ''Failed to fetch employees''), d'))"

definition getEmployeeById :: "engine \<Rightarrow> request \<Rightarrow> db \<Rightarrow> reply \<times> db" where
  "getEmployeeById e req d =
     (case parseInt (params_id req) of
        None \<Rightarrow> (Reply 400 (error_body ''Invalid employee ID''), d)
      | Some employeeId \<Rightarrow>
          (case pool_query e (Select_by_id (JNum employeeId)) d of
             (Inr rows, d') \<Rightarrow>
               (case rows of
                  [] \<Rightarrow> (Reply 404 (error_body ''Employee not found''), d')
                | r # rest \<Rightarrow> (Reply 200 (Json (JObj r)), d'))
           | (Inl err, d') \<Rightarrow> (Reply 500 (error_body ''Failed to fetch employee''), d')))"

text \<open>
  \<open>rows[0]\<close> of an empty row list is \<open>undefined\<close>, and \<open>res.json(undefined)\<close> sends an
  empty body; the engine returns exactly the created row, so this branch is not taken.
\<close>

definition post_employees :: "engine \<Rightarrow> request \<Rightarrow> db \<Rightarrow> reply \<times> db" where
  "post_employees e req d =
     (let name = field (body req) ''name'';
          email = field (body req) ''email'';
          department = field (body req) ''department''
      in if \<not> truthy name \<or> \<not> truthy email \<or> \<not> truthy department
         then (Reply 400 (error_body ''Missing required fields''), d)
         else (case pool_query e (Insert_employee (the name) (the email) (the department)) d of
                 (Inr rows, d') \<Rightarrow>
                   (case rows of
                      [] \<Rightarrow> (Reply 201 (Text []), d')
                    | r # rest \<Rightarrow> (Reply 201 (Json (JObj r)), d'))
               | (Inl err, d') \<Rightarrow> (Reply 500 (error_body ''Failed to add employee''), d')))"

definition put_employees_id :: "engine \<Rightarrow> request \<Rightarrow> db \<Rightarrow> reply \<times> db" where
  "put_employees_id e req d =
     (case parseInt (params_id req) of
        None \<Rightarrow> (Reply 400 (error_body ''Invalid ID format''), d)
      | Some i \<Rightarrow>
          (let name = field (body req) ''name'';
               email = field (body req) ''email'';
               department = field (body req) ''department''
           in if \<not> truthy name \<or> \<not> truthy email \<or> \<not> truthy department
              then (Reply 400 (error_body ''Missing required fields''), d)
              else (case pool_query e (Update_employee (the name) (the email) (the department) (JNum i)) d of
                      (Inr rows, d') \<Rightarrow>
                        (case rows of
                           [] \<Rightarrow> (Reply 404 (error_body ''Employee not found''), d')
                         | r # rest \<Rightarrow> (Reply 200 (Json (JObj r)), d'))
                    | (Inl err, d') \<Rightarrow> (Reply 500 (error_body ''Failed to update employee''), d'))))"

definition deleted_body :: "int \<Rightarrow> row \<Rightarrow> body" where
  "deleted_body i r =
     Json (JObj [(''message'', JStr (''Employee with ID '' @ number_string i @ '' has been deleted successfully'')),
                 (''deletedEmployee'', JObj r)])"

definition delete_employees_id :: "engine \<Rightarrow> request \<Rightarrow> db \<Rightarrow> reply \<times> db" where
  "delete_employees_id e req d =
     (case parseInt (params_id req) of
        None \<Rightarrow> (Reply 400 (error_body ''Invalid ID format''), d)
      | Some i \<Rightarrow>
          (case pool_query e (Delete_employee (JNum i)) d of
             (Inr rows, d') \<Rightarrow>
               (case rows of
                  [] \<Rightarrow> (Reply 404 (error_body ''Employee not found''), d')
                | r # rest \<Rightarrow> (Reply 200 (deleted_body i r), d'))
           | (Inl err, d') \<Rightarrow> (Reply 500 (error_body ''Failed to delete employee''), d')))"

section \<open>The authenticated variant\<close>

text \<open>
  \<open>user\<close> is \<open>req.user\<close>, the employee row that the session middleware attached to
  the request (\<open>None\<close> when the request is anonymous); \<open>req.isAuthenticated()\<close> is
  true exactly when it is set.
\<close>

definition isAuthenticated :: "request \<Rightarrow> bool" where
  "isAuthenticated req = (user req \<noteq> None)"

definition user_prop :: "request \<Rightarrow> string \<Rightarrow> json option" where
  "user_prop req k = (case user req of None \<Rightarrow> None | Some u \<Rightarrow> map_of u k)"

definition ensureAuthenticated :: "request \<Rightarrow> reply" where
  "ensureAuthenticated req = (if isAuthenticated req then Next else Redirect ''/login'')"

definition checkRole :: "string \<Rightarrow> request \<Rightarrow> reply" where
  "checkRole role req =
     (if isAuthenticated req \<and> user req \<noteq> None \<and> user_prop req ''role'' = Some (JStr role)
      then Next
      else Reply 403 (Text ''Forbidden''))"

definition get_employees_auth :: "engine \<Rightarrow> request \<Rightarrow> db \<Rightarrow> reply \<times> db" where
  "get_employees_auth e req d =
     (case checkRole ''admin'' req of
        Next \<Rightarrow>
          (case pool_query e Select_all d of
             (Inr rows, d') \<Rightarrow> (Reply 200 (Json (JArr (map JObj rows))), d')
           | (Inl err, d') \<Rightarrow> (Reply 500 (error_body ''Failed to fetch employees''), d'))
      | r \<Rightarrow> (r, d))"

definition get_employees_id_auth :: "engine \<Rightarrow> request \<Rightarrow> db \<Rightarrow> reply \<times> db" where
  "get_employees_id_auth e req d =
     (case parseInt (params_id req) of
        None \<Rightarrow> (Reply 400 (error_body ''Invalid employee ID''), d)
      | Some employeeId \<Rightarrow>
          (case pool_query e (Select_by_id (JNum employeeId)) d of
             (Inr rows, d') \<Rightarrow>
               (case rows of
                  [] \<Rightarrow> (Reply 404 (error_body ''Employee not found''), d')
                | r # rest \<Rightarrow>
                    if isAuthenticated req \<and> user req \<noteq> None \<and>
                       (user_prop req ''role'' = Some (JStr ''admin'') \<or>
                        user_prop req ''role'' = Some (JStr ''manager''))
                    then (Reply 200 (Json (JObj r)), d')
                    else if isAuthenticated req \<and> user req \<noteq> None \<and>
                            user_prop req ''employee_id'' = Some (JNum employeeId)
                    then (Reply 200 (Json (JObj r)), d')
                    else (Reply 403 (Text ''Forbidden''), d'))
           | (Inl err, d') \<Rightarrow> (Reply 500 (error_body ''Failed to fetch employee''), d')))"

text \<open>
  \<open>bcrypt.hash(data, 10)\<close>: the hashing primitive is external; \<open>H\<close> is the digest it
  computes for a string. It rejects data that is not a string.
\<close>

definition bcrypt_hash :: "(string \<Rightarrow> string) \<Rightarrow> json option \<Rightarrow> unit + string" where
  "bcrypt_hash H v = (case v of Some (JStr s) \<Rightarrow> Inr (H s) | _ \<Rightarrow> Inl ())"

definition param :: "json option \<Rightarrow> json" where
  "param v = (case v of None \<Rightarrow> JNull | Some x \<Rightarrow> x)"

definition reset_ok :: body where
  "reset_ok = Json (JObj [(''message'', JStr ''Password reset successfully'')])"

definition post_reset_password ::
  "(string \<Rightarrow> string) \<Rightarrow> engine \<Rightarrow> request \<Rightarrow> db \<Rightarrow> reply \<times> db" where
  "post_reset_password H e req d =
     (case checkRole ''admin'' req of
        Next \<Rightarrow>
          (let employeeId = field (body req) ''employeeId'';
               newPassword = field (body req) ''newPassword''
           in case bcrypt_hash H newPassword of
                Inl err \<Rightarrow> (Reply 500 (error_body ''Failed to reset password''), d)
              | Inr hashedPassword \<Rightarrow>
                  (case pool_query e (Set_password (JStr hashedPassword) (param employeeId)) d of
                     (Inr rows, d') \<Rightarrow> (Reply 200 reset_ok, d')
                   | (Inl err, d') \<Rightarrow> (Reply 500 (error_body ''Failed to reset password''), d')))
      | r \<Rightarrow> (r, d))"

definition get_protected :: "request \<Rightarrow> reply" where
  "get_protected req =
     (case ensureAuthenticated req of
        Next \<Rightarrow> Reply 200 (Text ''You are authenticated!'')
      | r \<Rightarrow> r)"

text \<open>
  Login. \<open>done\<close> is the continuation that passport hands to the strategy's verify
  callback: \<open>done(err)\<close>, \<open>done(null, false, info)\<close>, \<open>done(null, user)\<close>; the
  callback may also return without calling it. The verify callback of the source runs
  the query and ends there (its body stops at the comment \<open>// Rest of the code...\<close>),
  so it calls \<open>done\<close> only from its \<open>catch\<close>.
\<close>

datatype verified =
    Done_error
  | Done_fail "json option"
  | Done_user row
  | Not_called

definition local_verify :: "engine \<Rightarrow> json \<Rightarrow> json \<Rightarrow> db \<Rightarrow> verified \<times> db" where
  "local_verify e employeeId password d =
     (case pool_query e (Select_by_id employeeId) d of
        (Inr user_rows, d') \<Rightarrow> (Not_called, d')
      | (Inl err, d') \<Rightarrow> (Done_error, d'))"

definition auth_failed :: body where
  "auth_failed = Json (JObj [(''message'', JStr ''Authentication failed'')])"

text \<open>
  The callback given to \<open>passport.authenticate\<close> by the \<open>/login\<close> handler;
  \<open>logIn_err\<close> says whether \<open>req.logIn\<close> reports an error.
\<close>

definition login_callback :: "bool \<Rightarrow> verified \<Rightarrow> reply" where
  "login_callback logIn_err out =
     (case out of
        Done_error \<Rightarrow> NextErr
      | Done_fail info \<Rightarrow> Reply 401 auth_failed
      | Done_user u \<Rightarrow>
          if logIn_err then NextErr
          else Reply 200 (Json (JObj [(''message'', JStr ''Login successful''), (''user'', JObj u)]))
      | Not_called \<Rightarrow> Pending)"

text \<open>
  \<open>POST /login\<close>. The strategy of passport-local reads each credential from the body
  or else from the query string (\<open>a || b\<close>); when one of them is missing or falsy it
  fails the request itself with \<open>Missing credentials\<close> and does not call the verify
  callback; otherwise it calls it.
\<close>

definition js_or :: "json option \<Rightarrow> json option \<Rightarrow> json option" where
  "js_or a b = (if truthy a then a else b)"

definition missing_credentials :: "json option" where
  "missing_credentials = Some (JObj [(''message'', JStr ''Missing credentials'')])"

definition post_login :: "bool \<Rightarrow> engine \<Rightarrow> request \<Rightarrow> db \<Rightarrow> reply \<times> db" where
  "post_login logIn_err e req d =
     (let username = js_or (field (body req) ''employeeId'') (field (query req) ''employeeId'');
          password = js_or (field (body req) ''password'') (field (query req) ''password'')
      in if \<not> truthy username \<or> \<not> truthy password
         then (login_callback logIn_err (Done_fail missing_credentials), d)
         else (case local_verify e (param username) (param password) d of
                 (out, d') \<Rightarrow> (login_callback logIn_err out, d')))"

definition post_employees_id :: "request \<Rightarrow> reply" where
  "post_employees_id req = Reply 404 (Text ''Not found'')"

section \<open>Fields of a response body\<close>

text \<open>Whether a JSON value has a property named \<open>k\<close>, at any depth.\<close>

fun has_field :: "string \<Rightarrow> json \<Rightarrow> bool" where
  "has_field k (JObj kvs) = (\<exists>kv \<in> set kvs. fst kv = k \<or> has_field k (snd kv))"
| "has_field k (JArr vs) = (\<exists>v \<in> set vs. has_field k v)"
| "has_field k v = False"

fun body_has_field :: "string \<Rightarrow> reply \<Rightarrow> bool" where
  "body_has_field k (Reply n (Json v)) = has_field k v"
| "body_has_field k r = False"

section \<open>Example data\<close>

text \<open>
  A relation with the columns that the statements of both variants name, and two rows:
  an administrator and an employee.
\<close>

definition ann :: row where
  "ann = [(''id'', JNum 12), (''employee_id'', JNum 12), (''name'', JStr ''Ann''),
          (''email'', JStr ''ann@x.com''), (''department'', JStr ''Eng''),
          (''role'', JStr ''admin''), (''password'', JNull)]"

definition bob :: row where
  "bob = [(''id'', JNum 13), (''employee_id'', JNum 13), (''name'', JStr ''Bob''),
          (''email'', JStr ''bob@x.com''), (''department'', JStr ''Ops''),
          (''role'', JStr ''employee''), (''password'', JNull)]"

definition columns :: row where
  "columns = [(''id'', JNull), (''employee_id'', JNull), (''name'', JNull), (''email'', JNull),
              (''department'', JNull), (''role'', JNull), (''password'', JNull)]"

definition staff :: db where
  "staff = \<lparr>employees = [ann, bob], id_seq = 14, defaults = columns\<rparr>"

text \<open>The same relation with one row whose \<open>password\<close> column holds a digest.\<close>

definition cyd :: row where
  "cyd = [(''id'', JNum 21), (''employee_id'', JNum 21), (''name'', JStr ''Cyd''),
          (''email'', JStr ''cyd@x.com''), (''department'', JStr ''Ops''),
          (''role'', JStr ''employee''),
          (''password'', JStr ''$2b$10$N9qo8uLOickgx2ZMRZoMyeIjZAgcfl7p92ldGxad68LJZdL17lhWy'')]"

definition vault :: db where
  "vault = \<lparr>employees = [cyd], id_seq = 22, defaults = columns\<rparr>"

text \<open>A request without a query string.\<close>

definition request_of :: "string \<Rightarrow> json \<Rightarrow> row option \<Rightarrow> request" where
  "request_of i b u = \<lparr>params_id = i, body = b, query = JObj [], user = u\<rparr>"

section \<open>Facts about the engine and the parser\<close>

lemma pool_query_Answers [simp]:
  "pool_query Answers st d = (Inr (fst (exec st d)), snd (exec st d))"
  by (simp add: pool_query_def split: prod.splits)

lemma pool_query_Rejects [simp]: "pool_query Rejects st d = (Inl DatabaseError, d)"
  by (simp add: pool_query_def)

lemma exec_select_by_id [simp]:
  "exec (Select_by_id i) d = (filter (has_col ''id'' i) (employees d), d)"
  by (simp add: exec_def)

lemma exec_select_all [simp]: "exec Select_all d = (employees d, d)"
  by (simp add: exec_def)

lemma exec_delete [simp]:
  "exec (Delete_employee i) d =
     (filter (has_col ''id'' i) (employees d),
      d\<lparr>employees := filter (\<lambda>r. \<not> has_col ''id'' i r) (employees d)\<rparr>)"
  by (simp add: exec_def)

lemma parseInt_12abc: "parseInt ''12abc'' = Some 12"
  by code_simp

lemma parseInt_12: "parseInt ''12'' = Some 12"
  by code_simp

lemma staff_12: "filter (has_col ''id'' (JNum 12)) (employees staff) = [ann]"
  by (simp add: staff_def ann_def bob_def has_col_def)

lemma exec_set_password [simp]:
  "exec (Set_password digest i) d =
     ([], d\<lparr>employees := map (\<lambda>r. if has_col ''employee_id'' i r
                                    then set_cols [(''password'', digest)] r else r)
                             (employees d)\<rparr>)"
  by (simp add: exec_def)

lemma map_id_unchanged: "\<forall>r \<in> set rs. \<not> P r \<Longrightarrow> map (\<lambda>r. if P r then f r else r) rs = rs"
  by (induction rs) auto

lemma exec_insert [simp]:
  "exec (Insert_employee n e dep) d =
     ([new_row d n e dep],
      d\<lparr>employees := employees d @ [new_row d n e dep], id_seq := id_seq d + 1\<rparr>)"
  by (simp add: exec_def Let_def)

lemma exec_update [simp]:
  "exec (Update_employee n e dep i) d =
     (map (text_cols n e dep) (filter (has_col ''id'' i) (employees d)),
      d\<lparr>employees := map (\<lambda>r. if has_col ''id'' i r then text_cols n e dep r else r)
                             (employees d)\<rparr>)"
  by (simp add: exec_def Let_def)

lemma updates_keeps_columns: "k \<in> fst ` set r \<Longrightarrow> k \<in> fst ` set (AList.updates ks vs r)"
proof (induction ks arbitrary: vs r)
  case Nil
  then show ?case
    by simp
next
  case (Cons a ks)
  show ?case
  proof (cases vs)
    case Nil
    with Cons.prems show ?thesis
      by simp
  next
    case (Cons v vs')
    from Cons.prems have "k \<in> fst ` set (AList.update a v r)"
      by (simp add: AList.dom_update)
    then show ?thesis
      using Cons.IH Cons by simp
  qed
qed

lemma set_cols_keeps_columns: "k \<in> fst ` set r \<Longrightarrow> k \<in> fst ` set (set_cols kvs r)"
  by (simp add: set_cols_def updates_keeps_columns)

lemma filter_head_mem: "filter P xs = y # ys \<Longrightarrow> y \<in> set xs"
proof -
  assume "filter P xs = y # ys"
  then have "y \<in> set (filter P xs)"
    by simp
  then show ?thesis
    by simp
qed

lemma checkRole_cases: "checkRole R req = Next \<or> checkRole R req = Reply 403 (Text ''Forbidden'')"
  by (simp add: checkRole_def)

lemma has_field_row: "k \<in> fst ` set r \<Longrightarrow> has_field k (JObj r)"
  by auto

lemma list_all_rows:
  "status (fst (getAllEmployees e req d)) = Some 200 \<Longrightarrow>
   fst (getAllEmployees e req d) = Reply 200 (Json (JArr (map JObj (employees d))))"
  by (cases e) (simp_all add: getAllEmployees_def)

lemma list_all_rows_auth:
  "status (fst (get_employees_auth e req d)) = Some 200 \<Longrightarrow>
   fst (get_employees_auth e req d) = Reply 200 (Json (JArr (map JObj (employees d))))"
  using checkRole_cases [of "''admin''" req]
  by (cases e) (auto simp: get_employees_auth_def)

lemma get_row:
  "status (fst (getEmployeeById e req d)) = Some 200 \<Longrightarrow>
   \<exists>r \<in> set (employees d). fst (getEmployeeById e req d) = Reply 200 (Json (JObj r))"
  by (cases e)
    (auto simp: getEmployeeById_def error_body_def split: option.splits list.splits
          dest: filter_head_mem)

lemma get_row_auth:
  "status (fst (get_employees_id_auth e req d)) = Some 200 \<Longrightarrow>
   \<exists>r \<in> set (employees d). fst (get_employees_id_auth e req d) = Reply 200 (Json (JObj r))"
  by (cases e)
    (auto simp: get_employees_id_auth_def error_body_def split: option.splits list.splits if_splits
          dest: filter_head_mem)

lemma delete_row:
  "status (fst (delete_employees_id e req d)) = Some 200 \<Longrightarrow>
   \<exists>r \<in> set (employees d). \<exists>i. fst (delete_employees_id e req d) = Reply 200 (deleted_body i r)"
  by (cases e)
    (auto simp: delete_employees_id_def error_body_def split: option.splits list.splits
          dest: filter_head_mem)

lemma put_row:
  "status (fst (put_employees_id e req d)) = Some 200 \<Longrightarrow>
   \<exists>r \<in> set (employees (snd (put_employees_id e req d))).
      fst (put_employees_id e req d) = Reply 200 (Json (JObj r))"
proof (cases e)
  case Rejects
  assume "status (fst (put_employees_id e req d)) = Some 200"
  with Rejects show ?thesis
    by (auto simp: put_employees_id_def Let_def split: option.splits if_splits)
next
  case Answers
  assume ok: "status (fst (put_employees_id e req d)) = Some 200"
  from ok obtain i where i: "parseInt (params_id req) = Some i"
    by (auto simp: put_employees_id_def split: option.splits)
  from ok i have t: "truthy (field (body req) ''name'')" "truthy (field (body req) ''email'')"
      "truthy (field (body req) ''department'')"
    by (auto simp: put_employees_id_def Let_def split: if_splits)
  let ?upd = "text_cols (the (field (body req) ''name'')) (the (field (body req) ''email''))
                        (the (field (body req) ''department''))"
  let ?hit = "filter (has_col ''id'' (JNum i)) (employees d)"
  from ok i t Answers obtain r rest where r: "?hit = r # rest"
    by (cases ?hit) (auto simp: put_employees_id_def Let_def)
  then have "r \<in> set (employees d)" "has_col ''id'' (JNum i) r"
    by (auto dest: filter_head_mem simp: filter_eq_Cons_iff)
  then have "?upd r \<in> set (map (\<lambda>r. if has_col ''id'' (JNum i) r then ?upd r else r) (employees d))"
    by force
  with i t r Answers show ?thesis
    by (simp add: put_employees_id_def Let_def)
qed

lemma post_row:
  "status (fst (post_employees e req d)) = Some 201 \<Longrightarrow>
   \<exists>r \<in> set (employees (snd (post_employees e req d))).
      fst (post_employees e req d) = Reply 201 (Json (JObj r))"
  by (cases e) (auto simp: post_employees_def Let_def split: if_splits)

lemma put_keeps_columns:
  assumes ok: "status (fst (put_employees_id e req d)) = Some 200"
    and all: "\<forall>r \<in> set (employees d). k \<in> fst ` set r"
  shows "body_has_field k (fst (put_employees_id e req d))"
proof -
  from ok obtain i where i: "parseInt (params_id req) = Some i"
    by (auto simp: put_employees_id_def split: option.splits)
  from ok i have t: "truthy (field (body req) ''name'')" "truthy (field (body req) ''email'')"
      "truthy (field (body req) ''department'')"
    by (auto simp: put_employees_id_def Let_def split: if_splits)
  from ok i t have e: "e = Answers"
    by (cases e) (auto simp: put_employees_id_def Let_def)
  let ?upd = "text_cols (the (field (body req) ''name'')) (the (field (body req) ''email''))
                        (the (field (body req) ''department''))"
  let ?hit = "filter (has_col ''id'' (JNum i)) (employees d)"
  from ok i t e obtain r rest where r: "?hit = r # rest"
    by (cases ?hit) (auto simp: put_employees_id_def Let_def)
  then have "r \<in> set (employees d)"
    by (rule filter_head_mem)
  with all have "k \<in> fst ` set r"
    by blast
  then have "k \<in> fst ` set (?upd r)"
    unfolding text_cols_def by (rule set_cols_keeps_columns)
  then have "has_field k (JObj (?upd r))"
    by (rule has_field_row)
  moreover from i t r e have "fst (put_employees_id e req d) = Reply 200 (Json (JObj (?upd r)))"
    by (simp add: put_employees_id_def Let_def)
  ultimately show ?thesis
    by (simp del: has_field.simps)
qed

lemma post_keeps_columns:
  assumes ok: "status (fst (post_employees e req d)) = Some 201"
    and k: "k \<in> fst ` set (defaults d)"
  shows "body_has_field k (fst (post_employees e req d))"
proof -
  from ok have t: "truthy (field (body req) ''name'')" "truthy (field (body req) ''email'')"
      "truthy (field (body req) ''department'')"
    by (auto simp: post_employees_def Let_def error_body_def split: if_splits)
  from ok t have e: "e = Answers"
    by (cases e) (auto simp: post_employees_def Let_def)
  let ?r = "new_row d (the (field (body req) ''name'')) (the (field (body req) ''email''))
                      (the (field (body req) ''department''))"
  from k have "k \<in> fst ` set ?r"
    unfolding new_row_def by (rule set_cols_keeps_columns)
  then have "has_field k (JObj ?r)"
    by (rule has_field_row)
  moreover from t e have "fst (post_employees e req d) = Reply 201 (Json (JObj ?r))"
    by (simp add: post_employees_def Let_def)
  ultimately show ?thesis
    by (simp del: has_field.simps)
qed

lemma list_keeps_columns:
  assumes ok: "status (fst (getAllEmployees e req d)) = Some 200"
    and all: "\<forall>r \<in> set (employees d). k \<in> fst ` set r"
    and some: "employees d \<noteq> []"
  shows "body_has_field k (fst (getAllEmployees e req d))"
proof -
  from some obtain r where r: "r \<in> set (employees d)"
    by (cases "employees d") auto
  with all have "has_field k (JObj r)"
    by (blast intro: has_field_row)
  with r have "has_field k (JArr (map JObj (employees d)))"
    by (subst has_field.simps) (auto simp del: has_field.simps)
  with list_all_rows [OF ok] show ?thesis
    by (simp del: has_field.simps)
qed

lemma new_row_id: "map_of (new_row d n e dep) ''id'' = Some (JNum (id_seq d))"
  by (simp add: new_row_def set_cols_def update_conv')

lemma post_login_missing:
  "\<not> truthy (js_or (field (body req) ''employeeId'') (field (query req) ''employeeId'')) \<or>
   \<not> truthy (js_or (field (body req) ''password'') (field (query req) ''password'')) \<Longrightarrow>
   post_login l e req d = (Reply 401 auth_failed, d)"
  by (auto simp: post_login_def Let_def login_callback_def)

lemma post_login_verified:
  "truthy (field (body req) ''employeeId'') \<Longrightarrow> truthy (field (body req) ''password'') \<Longrightarrow>
   post_login l Answers req d = (Pending, d)"
  by (simp add: post_login_def Let_def js_or_def local_verify_def login_callback_def)

section \<open>Id parsing\<close>

text \<open>
  C10. The three \<open>:id\<close> handlers of server.js reject a path parameter as an invalid id
  exactly when \<open>parseInt\<close> of it is \<open>NaN\<close>: GET and DELETE answer 400 if and only if
  it is, and PUT sends its invalid-id 400 if and only if it is. The parse reads a numeric
  prefix: \<open>12abc\<close> parses to 12, and each handler treats the request as it treats the
  one for \<open>12\<close>.
\<close>

theorem id_rejected_iff_parseInt_NaN:
  "(status (fst (getEmployeeById e req d)) = Some 400 \<longleftrightarrow> parseInt (params_id req) = None) \<and>
   (fst (put_employees_id e req d) = Reply 400 (error_body ''Invalid ID format'')
      \<longleftrightarrow> parseInt (params_id req) = None) \<and>
   (status (fst (delete_employees_id e req d)) = Some 400 \<longleftrightarrow> parseInt (params_id req) = None) \<and>
   parseInt ''12abc'' = Some 12 \<and>
   getEmployeeById e (req\<lparr>params_id := ''12abc''\<rparr>) d =
     getEmployeeById e (req\<lparr>params_id := ''12''\<rparr>) d \<and>
   put_employees_id e (req\<lparr>params_id := ''12abc''\<rparr>) d =
     put_employees_id e (req\<lparr>params_id := ''12''\<rparr>) d \<and>
   delete_employees_id e (req\<lparr>params_id := ''12abc''\<rparr>) d =
     delete_employees_id e (req\<lparr>params_id := ''12''\<rparr>) d"
proof (intro conjI)
  show "status (fst (getEmployeeById e req d)) = Some 400 \<longleftrightarrow> parseInt (params_id req) = None"
    by (cases e) (auto simp: getEmployeeById_def split: option.splits list.splits)
  show "fst (put_employees_id e req d) = Reply 400 (error_body ''Invalid ID format'')
      \<longleftrightarrow> parseInt (params_id req) = None"
    by (cases e)
      (auto simp: put_employees_id_def error_body_def Let_def
            split: option.splits list.splits prod.splits sum.splits)
  show "status (fst (delete_employees_id e req d)) = Some 400 \<longleftrightarrow> parseInt (params_id req) = None"
    by (cases e) (auto simp: delete_employees_id_def split: option.splits list.splits)
  show "parseInt ''12abc'' = Some 12"
    by (rule parseInt_12abc)
  show "getEmployeeById e (req\<lparr>params_id := ''12abc''\<rparr>) d =
        getEmployeeById e (req\<lparr>params_id := ''12''\<rparr>) d"
    by (simp add: getEmployeeById_def parseInt_12abc parseInt_12)
  show "put_employees_id e (req\<lparr>params_id := ''12abc''\<rparr>) d =
        put_employees_id e (req\<lparr>params_id := ''12''\<rparr>) d"
    by (simp add: put_employees_id_def parseInt_12abc parseInt_12)
  show "delete_employees_id e (req\<lparr>params_id := ''12abc''\<rparr>) d =
        delete_employees_id e (req\<lparr>params_id := ''12''\<rparr>) d"
    by (simp add: delete_employees_id_def parseInt_12abc parseInt_12)
qed

theorem id_rejected_iff_parseInt_NaN_witness:
  "fst (getEmployeeById Answers (request_of ''12abc'' JNull None) staff) = Reply 200 (Json (JObj ann)) \<and>
   status (fst (delete_employees_id Answers (request_of ''abc'' JNull None) staff)) = Some 400"
proof -
  have nan: "parseInt ''abc'' = None"
    by code_simp
  have a: "getEmployeeById Answers (request_of ''12'' JNull None) staff =
           (Reply 200 (Json (JObj ann)), staff)"
    by (simp add: getEmployeeById_def request_of_def parseInt_12 staff_12)
  from id_rejected_iff_parseInt_NaN [of Answers "request_of ''abc'' JNull None" staff] nan a
       id_rejected_iff_parseInt_NaN [of Answers "request_of ''12abc'' JNull None" staff]
  show ?thesis
    by (simp add: request_of_def)
qed

section \<open>Reading one employee\<close>

text \<open>
  C5, as the code has it. \<open>GET /employees/:id\<close> of server.js answers its 400 exactly
  when \<open>parseInt\<close> of the parameter is \<open>NaN\<close>, and leaves the relation as it was. For a
  parameter that \<open>parseInt\<close> reads as \<open>n\<close> (a numeral, or a numeral followed by other
  characters), when the engine answers the query, the reply is 404 if no row has id
  \<open>n\<close> and 200 with the row if exactly one row has it.
\<close>

theorem getEmployeeById_zero_or_one:
  "(fst (getEmployeeById e req d) = Reply 400 (error_body ''Invalid employee ID'')
      \<longleftrightarrow> parseInt (params_id req) = None) \<and>
   (parseInt (params_id req) = None \<longrightarrow>
      getEmployeeById e req d = (Reply 400 (error_body ''Invalid employee ID''), d)) \<and>
   (parseInt (params_id req) = Some n \<longrightarrow>
    filter (has_col ''id'' (JNum n)) (employees d) = [] \<longrightarrow>
      getEmployeeById Answers req d = (Reply 404 (error_body ''Employee not found''), d)) \<and>
   (parseInt (params_id req) = Some n \<longrightarrow>
    filter (has_col ''id'' (JNum n)) (employees d) = [r] \<longrightarrow>
      getEmployeeById Answers req d = (Reply 200 (Json (JObj r)), d))"
proof (intro conjI)
  show "fst (getEmployeeById e req d) = Reply 400 (error_body ''Invalid employee ID'')
      \<longleftrightarrow> parseInt (params_id req) = None"
    by (cases e)
      (auto simp: getEmployeeById_def error_body_def split: option.splits list.splits)
qed (simp_all add: getEmployeeById_def)

theorem getEmployeeById_zero_or_one_witness:
  "getEmployeeById Answers (request_of ''12'' JNull None) staff =
     (Reply 200 (Json (JObj ann)), staff) \<and>
   getEmployeeById Answers (request_of ''7'' JNull None) staff =
     (Reply 404 (error_body ''Employee not found''), staff) \<and>
   getEmployeeById Answers (request_of ''x7'' JNull None) staff =
     (Reply 400 (error_body ''Invalid employee ID''), staff)"
proof -
  have p7: "parseInt ''7'' = Some 7"
    by code_simp
  have px: "parseInt ''x7'' = None"
    by code_simp
  have none: "filter (has_col ''id'' (JNum 7)) (employees staff) = []"
    by (simp add: staff_def ann_def bob_def has_col_def)
  from getEmployeeById_zero_or_one [of Answers "request_of ''12'' JNull None" staff 12 ann]
       getEmployeeById_zero_or_one [of Answers "request_of ''7'' JNull None" staff 7 ann]
       getEmployeeById_zero_or_one [of Answers "request_of ''x7'' JNull None" staff 7 ann]
       p7 px none staff_12 parseInt_12
  show ?thesis
    by (simp add: request_of_def)
qed

text \<open>
  C5 as stated fails: the parameter \<open>13th\<close> is not numeric, yet it is not answered 400;
  it is read as 13 and answered 200 with the row of employee 13.
\<close>

theorem non_numeric_id_accepted_counterexample:
  "getEmployeeById Answers (request_of ''13th'' JNull None) staff =
     (Reply 200 (Json (JObj bob)), staff)"
proof -
  have p: "parseInt ''13th'' = Some 13"
    by code_simp
  have hit: "filter (has_col ''id'' (JNum 13)) (employees staff) = [bob]"
    by (simp add: staff_def ann_def bob_def has_col_def)
  show ?thesis
    by (simp add: getEmployeeById_def request_of_def p hit)
qed

section \<open>The role guard\<close>

text \<open>
  C2. \<open>checkRole(R)\<close> calls \<open>next()\<close> if and only if the request carries an employee
  whose role is the string \<open>R\<close> itself; in every other case it responds 403 Forbidden.
  An employee whose role is \<open>admin\<close> is refused by \<open>checkRole('manager')\<close>.
\<close>

theorem checkRole_exact_match:
  "(checkRole R req = Next \<longleftrightarrow> (\<exists>u. user req = Some u \<and> map_of u ''role'' = Some (JStr R))) \<and>
   (checkRole R req \<noteq> Next \<longrightarrow> checkRole R req = Reply 403 (Text ''Forbidden'')) \<and>
   (user req = Some u \<longrightarrow> map_of u ''role'' = Some (JStr ''admin'') \<longrightarrow>
      checkRole ''manager'' req = Reply 403 (Text ''Forbidden''))"
proof (cases "user req")
  case None
  then show ?thesis
    by (simp add: checkRole_def isAuthenticated_def user_prop_def)
next
  case (Some v)
  then show ?thesis
    by (simp add: checkRole_def isAuthenticated_def user_prop_def)
qed

theorem checkRole_exact_match_witness:
  "checkRole ''manager'' (request_of [] JNull (Some ann)) = Reply 403 (Text ''Forbidden'') \<and>
   checkRole ''admin'' (request_of [] JNull (Some ann)) = Next \<and>
   checkRole ''admin'' (request_of [] JNull None) = Reply 403 (Text ''Forbidden'')"
proof -
  let ?admin = "request_of [] JNull (Some ann)"
  have u: "user ?admin = Some ann" "user (request_of [] JNull None) = None"
    by (simp_all add: request_of_def)
  have r: "map_of ann ''role'' = Some (JStr ''admin'')"
    by (simp add: ann_def)
  have a: "checkRole ''manager'' ?admin = Reply 403 (Text ''Forbidden'')"
    using checkRole_exact_match [of "''manager''" ?admin ann] u r by blast
  have b: "checkRole ''admin'' ?admin = Next"
    using checkRole_exact_match [of "''admin''" ?admin ann] u r by blast
  have c: "checkRole ''admin'' (request_of [] JNull None) = Reply 403 (Text ''Forbidden'')"
    using checkRole_exact_match [of "''admin''" "request_of [] JNull None" ann] u by simp
  from a b c show ?thesis
    by simp
qed

section \<open>Password reset\<close>

text \<open>
  C3. \<open>POST /reset-password\<close> sent by an administrator with a password that can be
  hashed, the engine answering: the reply is 200 with the success message for every
  \<open>employeeId\<close>; when no row has that \<open>employee_id\<close> the relation is left as it was
  (a silent no-op). Whatever the engine does, the reply is never 404.
\<close>

theorem reset_password_absent_id_succeeds:
  assumes admin: "checkRole ''admin'' req = Next"
    and pw: "field (body req) ''newPassword'' = Some (JStr newPassword)"
  shows "fst (post_reset_password H Answers req d) = Reply 200 reset_ok \<and>
         ((\<forall>r \<in> set (employees d).
              \<not> has_col ''employee_id'' (param (field (body req) ''employeeId'')) r) \<longrightarrow>
            snd (post_reset_password H Answers req d) = d) \<and>
         status (fst (post_reset_password H e req d)) \<noteq> Some 404"
proof (intro conjI impI)
  show "fst (post_reset_password H Answers req d) = Reply 200 reset_ok"
    using admin pw by (simp add: post_reset_password_def bcrypt_hash_def)
  show "snd (post_reset_password H Answers req d) = d"
    if "\<forall>r \<in> set (employees d).
          \<not> has_col ''employee_id'' (param (field (body req) ''employeeId'')) r"
    using admin pw that by (simp add: post_reset_password_def bcrypt_hash_def map_id_unchanged)
  show "status (fst (post_reset_password H e req d)) \<noteq> Some 404"
    using admin pw by (cases e) (simp_all add: post_reset_password_def bcrypt_hash_def)
qed

theorem reset_password_absent_id_succeeds_witness:
  "post_reset_password rev Answers
     (request_of [] (JObj [(''employeeId'', JNum 77), (''newPassword'', JStr ''pw'')]) (Some ann))
     staff =
   (Reply 200 reset_ok, staff)"
proof -
  let ?req = "request_of [] (JObj [(''employeeId'', JNum 77), (''newPassword'', JStr ''pw'')]) (Some ann)"
  have admin: "checkRole ''admin'' ?req = Next"
    by (simp add: checkRole_def isAuthenticated_def user_prop_def request_of_def ann_def)
  have pw: "field (body ?req) ''newPassword'' = Some (JStr ''pw'')"
    by (simp add: request_of_def)
  have absent: "\<forall>r \<in> set (employees staff).
                  \<not> has_col ''employee_id'' (param (field (body ?req) ''employeeId'')) r"
    by (simp add: staff_def ann_def bob_def has_col_def param_def request_of_def)
  from reset_password_absent_id_succeeds [OF admin pw, of rev staff Answers] absent
  show ?thesis
    by (simp add: prod_eq_iff)
qed

section \<open>Updating with a missing field\<close>

text \<open>
  C7. \<open>PUT /employees/:id\<close> with one of \<open>name\<close>, \<open>email\<close>, \<open>department\<close> missing from
  the body (or present with a falsy value): the status is 400 and the relation is left
  as it was, for every id parameter and whatever the engine would have done.
\<close>

theorem put_missing_field_unchanged:
  assumes "k \<in> {''name'', ''email'', ''department''}"
    and "\<not> truthy (field (body req) k)"
  shows "status (fst (put_employees_id e req d)) = Some 400 \<and> snd (put_employees_id e req d) = d"
  using assms by (auto simp: put_employees_id_def Let_def error_body_def split: option.splits)

theorem put_missing_field_unchanged_witness:
  "put_employees_id Answers
     (request_of ''13'' (JObj [(''name'', JStr ''Rob''), (''department'', JStr ''Ops'')]) None) staff =
   (Reply 400 (error_body ''Missing required fields''), staff)"
proof -
  let ?req = "request_of ''13'' (JObj [(''name'', JStr ''Rob''), (''department'', JStr ''Ops'')]) None"
  have k: "''email'' \<in> {''name'', ''email'', ''department''}"
    by simp
  have missing: "\<not> truthy (field (body ?req) ''email'')"
    by (simp add: request_of_def)
  have p: "parseInt ''13'' = Some 13"
    by code_simp
  have r: "fst (put_employees_id Answers ?req staff) = Reply 400 (error_body ''Missing required fields'')"
    by (simp add: put_employees_id_def request_of_def p)
  from put_missing_field_unchanged [OF k missing, of Answers staff] r
  show ?thesis
    by (simp add: prod_eq_iff)
qed

section \<open>Reading after deleting\<close>

text \<open>
  C8. When \<open>DELETE /employees/:id\<close> answers 200, no row with the parsed id is left in the
  relation, and a following \<open>GET /employees/:id\<close> for the same parameter, its query
  answered by the engine, replies 404 (in server.js and in the authenticated variant,
  for every requester).
\<close>

theorem get_after_delete_not_found:
  assumes del: "delete_employees_id e req d = (Reply 200 b, d')"
  shows "getEmployeeById Answers req d' = (Reply 404 (error_body ''Employee not found''), d') \<and>
         get_employees_id_auth Answers req d' = (Reply 404 (error_body ''Employee not found''), d') \<and>
         (\<exists>n. parseInt (params_id req) = Some n \<and>
              filter (has_col ''id'' (JNum n)) (employees d') = [])"
proof -
  from del obtain n where n: "parseInt (params_id req) = Some n"
    by (auto simp: delete_employees_id_def split: option.splits)
  from del n have e: "e = Answers"
    by (cases e) (auto simp: delete_employees_id_def)
  from del n e have d': "d' = d\<lparr>employees := filter (\<lambda>r. \<not> has_col ''id'' (JNum n) r) (employees d)\<rparr>"
    by (auto simp: delete_employees_id_def split: list.splits)
  have gone: "filter (has_col ''id'' (JNum n)) (employees d') = []"
    by (simp add: d' filter_empty_conv)
  show ?thesis
    using n gone by (simp add: getEmployeeById_def get_employees_id_auth_def)
qed

theorem get_after_delete_not_found_witness:
  "delete_employees_id Answers (request_of ''13'' JNull None) staff =
     (Reply 200 (deleted_body 13 bob), staff\<lparr>employees := [ann]\<rparr>) \<and>
   getEmployeeById Answers (request_of ''13'' JNull None) (staff\<lparr>employees := [ann]\<rparr>) =
     (Reply 404 (error_body ''Employee not found''), staff\<lparr>employees := [ann]\<rparr>)"
proof -
  have p: "parseInt ''13'' = Some 13"
    by code_simp
  have del: "delete_employees_id Answers (request_of ''13'' JNull None) staff =
     (Reply 200 (deleted_body 13 bob), staff\<lparr>employees := [ann]\<rparr>)"
    by (simp add: delete_employees_id_def request_of_def p staff_def ann_def bob_def has_col_def)
  from get_after_delete_not_found [OF del] del
  show ?thesis
    by simp
qed

section \<open>Existence before authorization\<close>

text \<open>
  C9. \<open>GET /employees/:id\<close> of the authenticated variant, the parameter parsing to \<open>n\<close>
  and the engine answering: when no row has id \<open>n\<close> the reply is 404 for every
  requester, anonymous or not, whatever the role; when a row has it, a requester who is
  anonymous, or is neither admin nor manager nor the employee \<open>n\<close>, gets 403. So the
  status tells such a requester whether the id exists.
\<close>

theorem existence_checked_before_authorization:
  assumes "parseInt (params_id req) = Some n"
  shows "(filter (has_col ''id'' (JNum n)) (employees d) = [] \<longrightarrow>
            fst (get_employees_id_auth Answers req d) = Reply 404 (error_body ''Employee not found'')) \<and>
         (filter (has_col ''id'' (JNum n)) (employees d) \<noteq> [] \<longrightarrow>
          (user req = None \<or>
           (user_prop req ''role'' \<noteq> Some (JStr ''admin'') \<and>
            user_prop req ''role'' \<noteq> Some (JStr ''manager'') \<and>
            user_prop req ''employee_id'' \<noteq> Some (JNum n))) \<longrightarrow>
            fst (get_employees_id_auth Answers req d) = Reply 403 (Text ''Forbidden''))"
  using assms
  by (auto simp: get_employees_id_auth_def isAuthenticated_def split: list.splits)

theorem existence_checked_before_authorization_witness:
  "fst (get_employees_id_auth Answers (request_of ''12'' JNull None) staff) =
     Reply 403 (Text ''Forbidden'') \<and>
   fst (get_employees_id_auth Answers (request_of ''12'' JNull (Some bob)) staff) =
     Reply 403 (Text ''Forbidden'') \<and>
   fst (get_employees_id_auth Answers (request_of ''7'' JNull None) staff) =
     Reply 404 (error_body ''Employee not found'') \<and>
   fst (get_employees_id_auth Answers (request_of ''7'' JNull (Some ann)) staff) =
     Reply 404 (error_body ''Employee not found'')"
proof -
  have p7: "parseInt ''7'' = Some 7"
    by code_simp
  have none: "filter (has_col ''id'' (JNum 7)) (employees staff) = []"
    by (simp add: staff_def ann_def bob_def has_col_def)
  have bob: "user_prop (request_of ''12'' JNull (Some bob)) ''role'' = Some (JStr ''employee'')"
            "user_prop (request_of ''12'' JNull (Some bob)) ''employee_id'' = Some (JNum 13)"
    by (simp_all add: user_prop_def request_of_def bob_def)
  from existence_checked_before_authorization [of "request_of ''12'' JNull None" 12 staff]
       existence_checked_before_authorization [of "request_of ''12'' JNull (Some bob)" 12 staff]
       existence_checked_before_authorization [of "request_of ''7'' JNull None" 7 staff]
       existence_checked_before_authorization [of "request_of ''7'' JNull (Some ann)" 7 staff]
       p7 none bob staff_12 parseInt_12
  show ?thesis
    by (simp add: request_of_def)
qed

section \<open>What a response carries\<close>

text \<open>
  C1, as the code has it. Every successful response of server.js carries the employee
  rows as the engine returns them (\<open>SELECT *\<close>, \<open>RETURNING *\<close>): the list, the row read,
  the row deleted, the row updated, the row created. No handler removes a column. So
  when every row and the schema of the relation have a \<open>password\<close> column, the body of
  every such response has a \<open>password\<close> field (for the list, when the relation is not
  empty).
\<close>

theorem responses_carry_rows_unfiltered:
  "(status (fst (getAllEmployees e req d)) = Some 200 \<longrightarrow>
      fst (getAllEmployees e req d) = Reply 200 (Json (JArr (map JObj (employees d))))) \<and>
   (status (fst (getEmployeeById e req d)) = Some 200 \<longrightarrow>
      (\<exists>r \<in> set (employees d). fst (getEmployeeById e req d) = Reply 200 (Json (JObj r)))) \<and>
   (status (fst (delete_employees_id e req d)) = Some 200 \<longrightarrow>
      (\<exists>r \<in> set (employees d). \<exists>i.
          fst (delete_employees_id e req d) = Reply 200 (deleted_body i r))) \<and>
   (status (fst (put_employees_id e req d)) = Some 200 \<longrightarrow>
      (\<exists>r \<in> set (employees (snd (put_employees_id e req d))).
          fst (put_employees_id e req d) = Reply 200 (Json (JObj r)))) \<and>
   (status (fst (post_employees e req d)) = Some 201 \<longrightarrow>
      (\<exists>r \<in> set (employees (snd (post_employees e req d))).
          fst (post_employees e req d) = Reply 201 (Json (JObj r)))) \<and>
   ((\<forall>r \<in> set (employees d). ''password'' \<in> fst ` set r) \<longrightarrow>
    ''password'' \<in> fst ` set (defaults d) \<longrightarrow>
      (employees d \<noteq> [] \<longrightarrow> status (fst (getAllEmployees e req d)) = Some 200 \<longrightarrow>
         body_has_field ''password'' (fst (getAllEmployees e req d))) \<and>
      (status (fst (getEmployeeById e req d)) = Some 200 \<longrightarrow>
         body_has_field ''password'' (fst (getEmployeeById e req d))) \<and>
      (status (fst (delete_employees_id e req d)) = Some 200 \<longrightarrow>
         body_has_field ''password'' (fst (delete_employees_id e req d))) \<and>
      (status (fst (put_employees_id e req d)) = Some 200 \<longrightarrow>
         body_has_field ''password'' (fst (put_employees_id e req d))) \<and>
      (status (fst (post_employees e req d)) = Some 201 \<longrightarrow>
         body_has_field ''password'' (fst (post_employees e req d))))"
proof (intro conjI impI)
  assume all: "\<forall>r \<in> set (employees d). ''password'' \<in> fst ` set r"
    and ok: "status (fst (getEmployeeById e req d)) = Some 200"
  from get_row [OF ok] obtain r where "r \<in> set (employees d)"
      "fst (getEmployeeById e req d) = Reply 200 (Json (JObj r))"
    by blast
  with all have "has_field ''password'' (JObj r)"
    by (blast intro: has_field_row)
  with \<open>fst (getEmployeeById e req d) = Reply 200 (Json (JObj r))\<close>
  show "body_has_field ''password'' (fst (getEmployeeById e req d))"
    by (simp del: has_field.simps)
next
  assume all: "\<forall>r \<in> set (employees d). ''password'' \<in> fst ` set r"
    and ok: "status (fst (delete_employees_id e req d)) = Some 200"
  from delete_row [OF ok] obtain r i where r: "r \<in> set (employees d)"
      "fst (delete_employees_id e req d) = Reply 200 (deleted_body i r)"
    by blast
  from all r(1) have "has_field ''password'' (JObj r)"
    by (blast intro: has_field_row)
  then have "has_field ''password'' (JObj [(''message'', m), (''deletedEmployee'', JObj r)])" for m
    by (subst has_field.simps) (simp del: has_field.simps)
  with r(2) show "body_has_field ''password'' (fst (delete_employees_id e req d))"
    by (simp add: deleted_body_def del: has_field.simps)
next
  assume "\<forall>r \<in> set (employees d). ''password'' \<in> fst ` set r"
    and "employees d \<noteq> []" and "status (fst (getAllEmployees e req d)) = Some 200"
  then show "body_has_field ''password'' (fst (getAllEmployees e req d))"
    by (intro list_keeps_columns)
next
  assume "\<forall>r \<in> set (employees d). ''password'' \<in> fst ` set r"
    and "status (fst (put_employees_id e req d)) = Some 200"
  then show "body_has_field ''password'' (fst (put_employees_id e req d))"
    by (intro put_keeps_columns)
next
  assume "''password'' \<in> fst ` set (defaults d)"
    and "status (fst (post_employees e req d)) = Some 201"
  then show "body_has_field ''password'' (fst (post_employees e req d))"
    by (intro post_keeps_columns)
qed (rule list_all_rows get_row delete_row put_row post_row, assumption)+

theorem responses_carry_rows_unfiltered_witness:
  "getEmployeeById Answers (request_of ''12'' JNull None) staff =
     (Reply 200 (Json (JObj ann)), staff) \<and>
   body_has_field ''password'' (fst (getEmployeeById Answers (request_of ''12'' JNull None) staff))"
proof -
  let ?req = "request_of ''12'' JNull None"
  have r: "getEmployeeById Answers ?req staff = (Reply 200 (Json (JObj ann)), staff)"
    by (simp add: getEmployeeById_def request_of_def parseInt_12 staff_12)
  have all: "\<forall>r \<in> set (employees staff). ''password'' \<in> fst ` set r"
    by (simp add: staff_def ann_def bob_def)
  have col: "''password'' \<in> fst ` set (defaults staff)"
    by (simp add: staff_def columns_def)
  from responses_carry_rows_unfiltered [of Answers ?req staff] r all col
  show ?thesis
    by simp
qed

text \<open>
  C1 as stated fails: on a relation whose \<open>password\<close> column holds a digest, an
  anonymous \<open>GET /employees/21\<close> of server.js is answered 200 with the whole row, the
  digest in its \<open>password\<close> field.
\<close>

theorem password_digest_in_response_counterexample:
  "getEmployeeById Answers (request_of ''21'' JNull None) vault =
     (Reply 200
        (Json (JObj [(''id'', JNum 21), (''employee_id'', JNum 21), (''name'', JStr ''Cyd''),
                     (''email'', JStr ''cyd@x.com''), (''department'', JStr ''Ops''),
                     (''role'', JStr ''employee''),
                     (''password'',
                      JStr ''$2b$10$N9qo8uLOickgx2ZMRZoMyeIjZAgcfl7p92ldGxad68LJZdL17lhWy'')])),
      vault) \<and>
   body_has_field ''password'' (fst (getEmployeeById Answers (request_of ''21'' JNull None) vault))"
proof -
  have p: "parseInt ''21'' = Some 21"
    by code_simp
  have hit: "filter (has_col ''id'' (JNum 21)) (employees vault) = [cyd]"
    by (simp add: vault_def cyd_def has_col_def)
  have r: "getEmployeeById Answers (request_of ''21'' JNull None) vault =
           (Reply 200 (Json (JObj cyd)), vault)"
    by (simp add: getEmployeeById_def request_of_def p hit)
  show ?thesis
    unfolding r by (simp add: cyd_def)
qed

section \<open>Login\<close>

text \<open>
  C4. The verify callback never reports a failed authentication: it calls \<open>done\<close> only
  from its \<open>catch\<close>. For a known employee with a wrong password and for an unknown
  employee alike, the engine answering, \<open>POST /login\<close> sends no response at all; the 401
  branch of the handler is not reached.
\<close>

theorem login_failure_sends_no_response:
  "post_login False Answers
     (request_of [] (JObj [(''employeeId'', JNum 13), (''password'', JStr ''wrong'')]) None) staff =
     (Pending, staff) \<and>
   post_login False Answers
     (request_of [] (JObj [(''employeeId'', JNum 77), (''password'', JStr ''wrong'')]) None) staff =
     (Pending, staff)"
  by (simp add: post_login_def js_or_def local_verify_def login_callback_def request_of_def)

theorem login_failure_sends_no_response_witness:
  "status (fst (post_login False Answers
     (request_of [] (JObj [(''employeeId'', JNum 13), (''password'', JStr ''wrong'')]) None) staff))
     \<noteq> Some 401 \<and>
   status (fst (post_login False Answers
     (request_of [] (JObj [(''employeeId'', JNum 77), (''password'', JStr ''wrong'')]) None) staff))
     \<noteq> Some 401"
  using login_failure_sends_no_response by simp

section \<open>Creating an employee\<close>

text \<open>
  C6, as the code has it. \<open>POST /employees\<close> answers 400 when one of \<open>name\<close>,
  \<open>email\<close>, \<open>department\<close> is absent from the body or present with a falsy value, and
  sends no query then. When all three are truthy and the engine accepts the insert, it
  answers 201 with the row that the insert created and added to the relation, whose
  \<open>id\<close> is the one the sequence generated; when the engine rejects the insert, 500.
\<close>

theorem post_employees_validation:
  "(k \<in> {''name'', ''email'', ''department''} \<longrightarrow> \<not> truthy (field (body req) k) \<longrightarrow>
      post_employees e req d = (Reply 400 (error_body ''Missing required fields''), d)) \<and>
   (truthy (field (body req) ''name'') \<longrightarrow> truthy (field (body req) ''email'') \<longrightarrow>
    truthy (field (body req) ''department'') \<longrightarrow>
      field (body req) ''name'' = Some name \<longrightarrow> field (body req) ''email'' = Some email \<longrightarrow>
      field (body req) ''department'' = Some department \<longrightarrow>
      post_employees Answers req d =
        (Reply 201 (Json (JObj (new_row d name email department))),
         d\<lparr>employees := employees d @ [new_row d name email department],
           id_seq := id_seq d + 1\<rparr>) \<and>
      map_of (new_row d name email department) ''id'' = Some (JNum (id_seq d)) \<and>
      post_employees Rejects req d = (Reply 500 (error_body ''Failed to add employee''), d))"
  by (auto simp: post_employees_def Let_def new_row_id)

theorem post_employees_validation_witness:
  "post_employees Answers
     (request_of []
        (JObj [(''name'', JStr ''Al''), (''email'', JStr ''al@x.com''), (''department'', JStr ''Eng'')])
        None)
     staff =
     (Reply 201
        (Json (JObj [(''id'', JNum 14), (''employee_id'', JNull), (''name'', JStr ''Al''),
                     (''email'', JStr ''al@x.com''), (''department'', JStr ''Eng''),
                     (''role'', JNull), (''password'', JNull)])),
      staff\<lparr>employees :=
              [ann, bob,
               [(''id'', JNum 14), (''employee_id'', JNull), (''name'', JStr ''Al''),
                (''email'', JStr ''al@x.com''), (''department'', JStr ''Eng''),
                (''role'', JNull), (''password'', JNull)]],
            id_seq := 15\<rparr>) \<and>
   post_employees Answers
     (request_of [] (JObj [(''name'', JStr ''Al''), (''department'', JStr ''Eng'')]) None) staff =
     (Reply 400 (error_body ''Missing required fields''), staff)"
proof -
  let ?full = "request_of []
        (JObj [(''name'', JStr ''Al''), (''email'', JStr ''al@x.com''), (''department'', JStr ''Eng'')])
        None"
  let ?part = "request_of [] (JObj [(''name'', JStr ''Al''), (''department'', JStr ''Eng'')]) None"
  have f: "field (body ?full) ''name'' = Some (JStr ''Al'')"
          "field (body ?full) ''email'' = Some (JStr ''al@x.com'')"
          "field (body ?full) ''department'' = Some (JStr ''Eng'')"
    by (simp_all add: request_of_def)
  have m: "\<not> truthy (field (body ?part) ''email'')"
    by (simp add: request_of_def)
  have row: "new_row staff (JStr ''Al'') (JStr ''al@x.com'') (JStr ''Eng'') =
             [(''id'', JNum 14), (''employee_id'', JNull), (''name'', JStr ''Al''),
              (''email'', JStr ''al@x.com''), (''department'', JStr ''Eng''),
              (''role'', JNull), (''password'', JNull)]"
    by (simp add: new_row_def set_cols_def prepareValue_def staff_def columns_def)
  have a: "post_employees Answers ?part staff =
           (Reply 400 (error_body ''Missing required fields''), staff)"
    using post_employees_validation [of "''email''" ?part Answers staff] m by simp
  have b: "post_employees Answers ?full staff =
        (Reply 201 (Json (JObj (new_row staff (JStr ''Al'') (JStr ''al@x.com'') (JStr ''Eng'')))),
         staff\<lparr>employees := employees staff @ [new_row staff (JStr ''Al'') (JStr ''al@x.com'') (JStr ''Eng'')],
           id_seq := id_seq staff + 1\<rparr>)"
    using post_employees_validation [of "''email''" ?full Answers staff
            "JStr ''Al''" "JStr ''al@x.com''" "JStr ''Eng''"] f
    by simp
  from a b show ?thesis
    unfolding row by (simp add: staff_def)
qed

text \<open>
  C6 as stated fails: a body in which all three fields are present, \<open>name\<close> being the
  empty string, is answered 400 and not 201.
\<close>

theorem post_employees_empty_name_counterexample:
  "field (JObj [(''name'', JStr ''''), (''email'', JStr ''al@x.com''), (''department'', JStr ''Eng'')]) ''name''
     = Some (JStr '''') \<and>
   field (JObj [(''name'', JStr ''''), (''email'', JStr ''al@x.com''), (''department'', JStr ''Eng'')]) ''email''
     = Some (JStr ''al@x.com'') \<and>
   field (JObj [(''name'', JStr ''''), (''email'', JStr ''al@x.com''), (''department'', JStr ''Eng'')]) ''department''
     = Some (JStr ''Eng'') \<and>
   post_employees Answers
     (request_of [] (JObj [(''name'', JStr ''''), (''email'', JStr ''al@x.com''), (''department'', JStr ''Eng'')]) None)
     staff = (Reply 400 (error_body ''Missing required fields''), staff)"
  by (simp add: post_employees_def request_of_def)

end
